theory Spec2Isabelle
  imports Complex_Main
begin

section \<open>The factory dashboard screen (FactoryDashboard.jsx)\<close>

text \<open>
  The component keeps four pieces of hook state: the fetched factory document, the
  loading flag and the two simulated gas levels. JavaScript numbers are modelled as
  reals, strings as byte lists (UTF-8), \<open>null\<close>/\<open>undefined\<close> as \<open>None\<close>.
  The value that one call of \<open>Math.random()\<close> returns is an argument of the model.
\<close>

subsection \<open>Data\<close>

text \<open>The data of a document of the \<open>factories\<close> collection; a field may be missing.\<close>

record factory_data =
  name :: "string option"
  location :: "string option"
  industry :: "string option"
  rating :: "real option"

text \<open>The four \<open>useState\<close> cells of the component.\<close>

record dashboard =
  factory :: "factory_data option"
  loading :: bool
  coLevel :: real
  co2Level :: real

text \<open>The initial values handed to \<open>useState\<close>.\<close>

definition initial :: dashboard where
  "initial = \<lparr>factory = None, loading = True, coLevel = 15, co2Level = 450\<rparr>"

subsection \<open>Simulated real-time updates\<close>

text \<open>
  The updater passed to \<open>setCoLevel\<close>: \<open>r\<close> is the value of \<open>Math.random()\<close>,
  \<open>prev\<close> the previous level.
\<close>

definition coUpdate :: "real \<Rightarrow> real \<Rightarrow> real" where
  "coUpdate r prev = (let newValue = prev + (r * 2 - 1) in max 5 (min 40 newValue))"

text \<open>The updater passed to \<open>setCo2Level\<close>.\<close>

definition co2Update :: "real \<Rightarrow> real \<Rightarrow> real" where
  "co2Update r prev = (let newValue = prev + (r * 10 - 5) in max 350 (min 600 newValue))"

text \<open>
  The body of the callback given to \<open>setInterval\<close>: both setters run, each with a
  random draw of its own.
\<close>

definition tick :: "real \<Rightarrow> real \<Rightarrow> dashboard \<Rightarrow> dashboard" where
  "tick r1 r2 c = c\<lparr>coLevel := coUpdate r1 (coLevel c), co2Level := co2Update r2 (co2Level c)\<rparr>"

text \<open>A finite sequence of timer ticks, one pair of draws per tick.\<close>

fun ticks :: "dashboard \<Rightarrow> (real \<times> real) list \<Rightarrow> dashboard" where
  "ticks c [] = c"
| "ticks c ((r1, r2) # rs) = ticks (tick r1 r2 c) rs"

text \<open>
  The clamp of the specification, written as the specification reads it: a value below
  the range becomes the lower bound, a value above it the upper bound.
\<close>

definition clamp :: "real \<Rightarrow> real \<Rightarrow> real \<Rightarrow> real" where
  "clamp v lo hi = (if v < lo then lo else if hi < v then hi else v)"

subsection \<open>Status classification\<close>

text \<open>The two conditional expressions computed before the dashboard is rendered.\<close>

definition coStatus :: "real \<Rightarrow> string" where
  "coStatus coLevel' =
     (if coLevel' > 25 then ''danger'' else if coLevel' > 20 then ''warning'' else ''success'')"

definition co2Status :: "real \<Rightarrow> string" where
  "co2Status co2Level' =
     (if co2Level' > 500 then ''danger'' else if co2Level' > 450 then ''warning'' else ''success'')"

text \<open>
  The classifier of the specification, written as the specification reads it, over its
  three severity tiers and two measurement kinds.
\<close>

datatype SeverityTier = ok | warning | danger

datatype MeasurementKind = CO | CO2

definition classify :: "real \<Rightarrow> MeasurementKind \<Rightarrow> SeverityTier" where
  "classify v kind =
     (case kind of
        CO \<Rightarrow> (if v > 25 then danger else if 20 < v \<and> v \<le> 25 then warning else ok)
      | CO2 \<Rightarrow> (if v > 500 then danger else if 450 < v \<and> v \<le> 500 then warning else ok))"

text \<open>
  The status string that the component hands to a card for each tier: the tier the
  specification calls \<open>ok\<close> is the status the component names \<open>success\<close>.
\<close>

fun status_of :: "SeverityTier \<Rightarrow> string" where
  "status_of danger = ''danger''"
| "status_of warning = ''warning''"
| "status_of ok = ''success''"

subsection \<open>The header of the rendered dashboard\<close>

text \<open>
  \<open>a || d\<close> for a string-valued \<open>a\<close>: \<open>undefined\<close>, \<open>null\<close> and the empty string
  are falsy.
\<close>

definition or_string :: "string option \<Rightarrow> string \<Rightarrow> string" where
  "or_string a d = (case a of None \<Rightarrow> d | Some s \<Rightarrow> if s = [] then d else s)"

text \<open>\<open>a || d\<close> for a number-valued \<open>a\<close>: \<open>undefined\<close>, \<open>null\<close> and 0 are falsy.\<close>

definition or_number :: "real option \<Rightarrow> real \<Rightarrow> real" where
  "or_number a d = (case a of None \<Rightarrow> d | Some x \<Rightarrow> if x = 0 then d else x)"

text \<open>
  \<open>String.prototype.replace\<close> with a one-character string pattern: only the first
  occurrence is replaced.
\<close>

fun replace :: "char \<Rightarrow> char \<Rightarrow> string \<Rightarrow> string" where
  "replace p r [] = []"
| "replace p r (c # cs) = (if c = p then r # cs else c # replace p r cs)"

text \<open>
  The separator between location and industry as the source file holds it, in UTF-8:
  the three characters U+00E2, U+20AC, U+00A2 between two spaces.
\<close>

definition separator :: string where
  "separator = '' '' @ [CHR 0xC3, CHR 0xA2, CHR 0xE2, CHR 0x82, CHR 0xAC, CHR 0xC2, CHR 0xA2] @ '' ''"

text \<open>The bullet U+2022 in UTF-8, between two spaces.\<close>

definition bullet :: string where
  "bullet = '' '' @ [CHR 0xE2, CHR 0x80, CHR 0xA2] @ '' ''"

text \<open>The four expressions of the header; \<open>factory?.f\<close> is \<open>Option.bind factory f\<close>.\<close>

definition nameShown :: "factory_data option \<Rightarrow> string" where
  "nameShown f = or_string (Option.bind f name) ''Your Factory''"

definition locationShown :: "factory_data option \<Rightarrow> string" where
  "locationShown f = or_string (Option.bind f location) ''Location''"

definition industryShown :: "factory_data option \<Rightarrow> string" where
  "industryShown f =
     or_string (map_option (replace CHR ''_'' CHR '' '') (Option.bind f industry)) ''Industry''"

definition ratingShown :: "factory_data option \<Rightarrow> real" where
  "ratingShown f = or_number (Option.bind f rating) 0"

text \<open>
  What the component returns, without layout, number formatting and the static cards,
  charts and lists: the spinner, or the header texts, the rating handed to
  \<open>RatingDisplay\<close> and the statuses of the two live cards.
\<close>

record page =
  title :: string
  subtitle :: string
  ratingDisplay :: real
  coCardStatus :: string
  co2CardStatus :: string

datatype view = Spinner | Dashboard page

definition render :: "dashboard \<Rightarrow> view" where
  "render c =
     (if loading c then Spinner
      else Dashboard
        \<lparr>title = nameShown (factory c) @ '' Dashboard'',
         subtitle = locationShown (factory c) @ separator @ industryShown (factory c),
         ratingDisplay = ratingShown (factory c),
         coCardStatus = coStatus (coLevel c),
         co2CardStatus = co2Status (co2Level c)\<rparr>)"

subsection \<open>The component in its host\<close>

text \<open>
  The object that \<open>useAuth()\<close> hands to a render as \<open>currentUser\<close>: which object it
  is, and its \<open>uid\<close>. \<open>Object.is\<close> on two user objects is equality of these values: two
  objects for the same user have the same \<open>uid\<close> and differ in \<open>identity\<close>. \<open>null\<close>
  is \<open>None\<close>.
\<close>

record user =
  identity :: nat
  uid :: string

text \<open>
  One instance of the component together with what the host keeps for it: the hook
  state, whether the instance is mounted, the table of running intervals, the last
  dependency \<open>[currentUser]\<close> of the fetch effect, the calls of \<open>getDoc\<close> so far, its
  pending promises, the console.
\<close>

datatype phase = Fresh | Active | Torn

text \<open>How the promise of \<open>getDoc\<close> settles.\<close>

datatype fetch_result = Exists factory_data | Missing | Rejected string

record world =
  screen :: dashboard
  phase :: phase
  timers :: "nat list"
  nextTimer :: nat
  interval :: "nat option"
  deps :: "user option"
  requests :: "string list"
  pending :: "string list"
  console :: "string list list"

definition init :: world where
  "init = \<lparr>screen = initial, phase = Fresh, timers = [], nextTimer = 0, interval = None,
           deps = None, requests = [], pending = [], console = []\<rparr>"

text \<open>
  A call of one of the state setters (\<open>setFactory\<close>, \<open>setLoading\<close>, \<open>setCoLevel\<close>,
  \<open>setCo2Level\<close>): the host applies it to the hook state of a mounted component and
  drops it once the component is unmounted.
\<close>

definition set_state :: "(dashboard \<Rightarrow> dashboard) \<Rightarrow> world \<Rightarrow> world" where
  "set_state f w = (if phase w = Active then w\<lparr>screen := f (screen w)\<rparr> else w)"

text \<open>The first effect: \<open>setInterval\<close> registers the callback and returns its handle.\<close>

definition simulation_effect :: "world \<Rightarrow> world" where
  "simulation_effect w =
     w\<lparr>timers := timers w @ [nextTimer w], interval := Some (nextTimer w),
       nextTimer := Suc (nextTimer w)\<rparr>"

text \<open>Its cleanup: \<open>clearInterval(interval)\<close>.\<close>

definition simulation_cleanup :: "world \<Rightarrow> world" where
  "simulation_cleanup w =
     (case interval w of None \<Rightarrow> w | Some i \<Rightarrow> w\<lparr>timers := removeAll i (timers w)\<rparr>)"

text \<open>
  \<open>fetchFactoryData\<close> up to its \<open>await\<close>: without a user it returns at once, otherwise
  it issues \<open>getDoc\<close> for the document named by the user's \<open>uid\<close>.
\<close>

definition fetchFactoryData :: "user option \<Rightarrow> world \<Rightarrow> world" where
  "fetchFactoryData currentUser w =
     (case currentUser of
        None \<Rightarrow> w
      | Some u \<Rightarrow> w\<lparr>requests := requests w @ [uid u], pending := pending w @ [uid u]\<rparr>)"

text \<open>
  \<open>fetchFactoryData\<close> after its \<open>await\<close>: the \<open>try\<close> body or the \<open>catch\<close> handler, then
  the \<open>finally\<close> block. Nothing in it asks whether the component is still mounted.
\<close>

definition fetchFactoryData_resume :: "fetch_result \<Rightarrow> world \<Rightarrow> world" where
  "fetchFactoryData_resume res w =
     (let w' =
        (case res of
           Exists d \<Rightarrow> set_state (\<lambda>c. c\<lparr>factory := Some d\<rparr>) w
         | Missing \<Rightarrow> w\<lparr>console := console w @ [[''No factory document found for this user'']]\<rparr>
         | Rejected err \<Rightarrow> w\<lparr>console := console w @ [[''Error fetching factory data:'', err]]\<rparr>)
      in set_state (\<lambda>c. c\<lparr>loading := False\<rparr>) w')"

text \<open>The second effect, with dependency array \<open>[currentUser]\<close>.\<close>

definition fetch_effect :: "user option \<Rightarrow> world \<Rightarrow> world" where
  "fetch_effect currentUser w = fetchFactoryData currentUser (w\<lparr>deps := currentUser\<rparr>)"

text \<open>
  What can happen to the instance: it is mounted, rendered again with the user object the
  authentication context then gives (the fetch effect runs again when that object is not
  the one of the previous run), one period of 5000 ms passes (with the two draws of that
  tick), the oldest pending \<open>getDoc\<close> settles, it is unmounted.
\<close>

datatype event =
  Mount "user option"
| Rerender "user option"
| Period real real
| Settle fetch_result
| Unmount

fun step :: "event \<Rightarrow> world \<Rightarrow> world" where
  "step (Mount currentUser) w =
     (if phase w = Fresh
      then fetch_effect currentUser (simulation_effect (w\<lparr>screen := initial, phase := Active\<rparr>))
      else w)"
| "step (Rerender currentUser) w =
     (if phase w = Active \<and> currentUser \<noteq> deps w then fetch_effect currentUser w else w)"
| "step (Period r1 r2) w =
     (case interval w of
        None \<Rightarrow> w
      | Some i \<Rightarrow> if i \<in> set (timers w) then set_state (tick r1 r2) w else w)"
| "step (Settle res) w =
     (case pending w of
        [] \<Rightarrow> w
      | u # rest \<Rightarrow> fetchFactoryData_resume res (w\<lparr>pending := rest\<rparr>))"
| "step Unmount w =
     (if phase w = Active then (simulation_cleanup w)\<lparr>phase := Torn\<rparr> else w)"

fun run :: "world \<Rightarrow> event list \<Rightarrow> world" where
  "run w [] = w"
| "run w (e # es) = run (step e w) es"

text \<open>Periods of the clock, one pair of draws each.\<close>

definition periods :: "(real \<times> real) list \<Rightarrow> event list" where
  "periods rs = map (\<lambda>(r1, r2). Period r1 r2) rs"

text \<open>Every render in the list is given the same \<open>currentUser\<close> object.\<close>

fun same_user :: "user option \<Rightarrow> event list \<Rightarrow> bool" where
  "same_user u [] = True"
| "same_user u (Rerender u' # es) = (u' = u \<and> same_user u es)"
| "same_user u (e # es) = same_user u es"

text \<open>
  The users and the record of the end-to-end scenario, and a second object for the
  first user, as a later sign-in of the same account gives.
\<close>

definition U1 :: user where
  "U1 = \<lparr>identity = 1, uid = ''U1''\<rparr>"

definition U2 :: user where
  "U2 = \<lparr>identity = 2, uid = ''U2''\<rparr>"


definition acme :: factory_data where
  "acme = \<lparr>name = Some ''Acme Steel'', location = Some ''Ohio'',
           industry = Some ''metal_production'', rating = Some 4\<rparr>"

subsection \<open>Invariants of the host model\<close>

text \<open>
  The interval table holds the component's interval while the component is mounted and
  nothing before or after.
\<close>

definition timer_scoped :: "world \<Rightarrow> bool" where
  "timer_scoped w =
     (case phase w of
        Fresh \<Rightarrow> timers w = [] \<and> interval w = None
      | Active \<Rightarrow> (\<exists>i. interval w = Some i \<and> timers w = [i])
      | Torn \<Rightarrow> timers w = [])"


text \<open>Mounted without a user: nothing requested, nothing logged, still loading.\<close>

definition waiting :: "world \<Rightarrow> bool" where
  "waiting w = (requests w = [] \<and> pending w = [] \<and> console w = [] \<and> loading (screen w) \<and>
                factory (screen w) = None \<and> phase w \<noteq> Fresh \<and> deps w = None)"

section \<open>Properties\<close>

subsection \<open>Simulation\<close>

lemma coUpdate_bounds: "5 \<le> coUpdate r prev \<and> coUpdate r prev \<le> 40"
  by (simp add: coUpdate_def Let_def)

lemma co2Update_bounds: "350 \<le> co2Update r prev \<and> co2Update r prev \<le> 600"
  by (simp add: co2Update_def Let_def)

lemma ticks_in_range:
  "5 \<le> coLevel c \<Longrightarrow> coLevel c \<le> 40 \<Longrightarrow> 350 \<le> co2Level c \<Longrightarrow> co2Level c \<le> 600 \<Longrightarrow>
   5 \<le> coLevel (ticks c rs) \<and> coLevel (ticks c rs) \<le> 40 \<and>
   350 \<le> co2Level (ticks c rs) \<and> co2Level (ticks c rs) \<le> 600"
proof (induction rs arbitrary: c)
  case Nil
  then show ?case by simp
next
  case (Cons p rs)
  obtain r1 r2 where p: "p = (r1, r2)" by (cases p)
  have "5 \<le> coLevel (tick r1 r2 c)" "coLevel (tick r1 r2 c) \<le> 40"
       "350 \<le> co2Level (tick r1 r2 c)" "co2Level (tick r1 r2 c) \<le> 600"
    using coUpdate_bounds co2Update_bounds by (simp_all add: tick_def)
  from Cons.IH [OF this] show ?case by (simp add: p)
qed

lemma co_noise_bij: "bij_betw (\<lambda>x::real. x * 2 - 1) {0..<1} {- 1..<1}"
  by (rule bij_betw_byWitness [where f' = "\<lambda>u. (u + 1) / 2"]) (auto simp: field_simps)

lemma co2_noise_bij: "bij_betw (\<lambda>x::real. x * 10 - 5) {0..<1} {- 5..<5}"
  by (rule bij_betw_byWitness [where f' = "\<lambda>u. (u + 5) / 10"]) (auto simp: field_simps)

lemma max_min_clamp: "lo \<le> hi \<Longrightarrow> max lo (min hi v) = clamp v lo hi"
  by (simp add: clamp_def max_def min_def)

text \<open>
  C1. From any starting levels inside their ranges, after any finite sequence of ticks
  with arbitrary draws (hence arbitrary perturbations) the CO level is in [5, 40] and the
  CO2 level in [350, 600]; a single clamped update lands in its range from any previous
  value at all.
\<close>

theorem levels_stay_in_range:
  assumes "5 \<le> coLevel c" "coLevel c \<le> 40" "350 \<le> co2Level c" "co2Level c \<le> 600"
  shows "5 \<le> coLevel (ticks c rs) \<and> coLevel (ticks c rs) \<le> 40 \<and>
         350 \<le> co2Level (ticks c rs) \<and> co2Level (ticks c rs) \<le> 600 \<and>
         5 \<le> coUpdate r prev \<and> coUpdate r prev \<le> 40 \<and>
         350 \<le> co2Update r prev' \<and> co2Update r prev' \<le> 600"
  using ticks_in_range [OF assms] coUpdate_bounds co2Update_bounds by blast

theorem levels_stay_in_range_witness:
  "5 \<le> coLevel initial \<and> coLevel initial \<le> 40 \<and>
   350 \<le> co2Level initial \<and> co2Level initial \<le> 600 \<and>
   5 \<le> coLevel (ticks initial [(1, 0), (500, -500)]) \<and>
   coLevel (ticks initial [(1, 0), (500, -500)]) \<le> 40 \<and>
   350 \<le> co2Level (ticks initial [(1, 0), (500, -500)]) \<and>
   co2Level (ticks initial [(1, 0), (500, -500)]) \<le> 600 \<and>
   coLevel (ticks initial [(1, 0), (500, -500)]) = 40 \<and>
   co2Level (ticks initial [(1, 0), (500, -500)]) = 350"
proof -
  have h: "5 \<le> coLevel initial" "coLevel initial \<le> 40"
          "350 \<le> co2Level initial" "co2Level initial \<le> 600"
    by (simp_all add: initial_def)
  have v: "coLevel (ticks initial [(1, 0), (500, -500)]) = 40"
          "co2Level (ticks initial [(1, 0), (500, -500)]) = 350"
    by (simp_all add: initial_def tick_def coUpdate_def co2Update_def)
  show ?thesis
    using h v levels_stay_in_range [OF h, of "[(1, 0), (500, -500)]"] by simp
qed

text \<open>
  C3. On a tick, with \<open>r\<close> and \<open>r'\<close> the two values of \<open>Math.random()\<close> (each in
  [0, 1)), the next CO level is the clamp to [5, 40] of the previous level plus the
  perturbation \<open>r * 2 - 1\<close>, which lies in [-1, 1], and the next CO2 level is the clamp to
  [350, 600] of the previous level plus \<open>r' * 10 - 5\<close>, which lies in [-5, 5]. The clamp
  is taken of the perturbed value. Each perturbation is an affine image of its draw,
  one-to-one from [0, 1) onto [-1, 1) and [-5, 5).
\<close>

theorem tick_is_clamped_perturbation:
  assumes "0 \<le> r" "r < 1" "0 \<le> r'" "r' < 1"
  shows "coLevel (tick r r' c) = clamp (coLevel c + (r * 2 - 1)) 5 40 \<and>
         co2Level (tick r r' c) = clamp (co2Level c + (r' * 10 - 5)) 350 600 \<and>
         - 1 \<le> r * 2 - 1 \<and> r * 2 - 1 \<le> 1 \<and> - 5 \<le> r' * 10 - 5 \<and> r' * 10 - 5 \<le> 5 \<and>
         factory (tick r r' c) = factory c \<and> loading (tick r r' c) = loading c \<and>
         bij_betw (\<lambda>x::real. x * 2 - 1) {0..<1} {- 1..<1} \<and>
         bij_betw (\<lambda>x::real. x * 10 - 5) {0..<1} {- 5..<5}"
proof -
  have "coLevel (tick r r' c) = clamp (coLevel c + (r * 2 - 1)) 5 40"
    by (simp add: tick_def coUpdate_def Let_def max_min_clamp)
  moreover have "co2Level (tick r r' c) = clamp (co2Level c + (r' * 10 - 5)) 350 600"
    by (simp add: tick_def co2Update_def Let_def max_min_clamp)
  moreover have "- 1 \<le> r * 2 - 1 \<and> r * 2 - 1 \<le> 1 \<and> - 5 \<le> r' * 10 - 5 \<and> r' * 10 - 5 \<le> 5"
    using assms by simp
  moreover have "factory (tick r r' c) = factory c \<and> loading (tick r r' c) = loading c"
    by (simp add: tick_def)
  ultimately show ?thesis using co_noise_bij co2_noise_bij by blast
qed

theorem tick_is_clamped_perturbation_witness:
  "(0::real) \<le> 1 / 4 \<and> (1::real) / 4 < 1 \<and> (0::real) \<le> 9 / 10 \<and> (9::real) / 10 < 1 \<and>
   coLevel (tick (1 / 4) (9 / 10) (initial\<lparr>coLevel := 5, co2Level := 598\<rparr>)) = 5 \<and>
   co2Level (tick (1 / 4) (9 / 10) (initial\<lparr>coLevel := 5, co2Level := 598\<rparr>)) = 600 \<and>
   clamp (5 + (1 / 4 * 2 - 1)) 5 40 = 5 \<and> clamp (598 + (9 / 10 * 10 - 5)) 350 600 = 600"
proof -
  have h: "(0::real) \<le> 1 / 4" "(1::real) / 4 < 1" "(0::real) \<le> 9 / 10" "(9::real) / 10 < 1"
    by simp_all
  have c: "clamp (5 + (1 / 4 * 2 - 1)) 5 40 = 5" "clamp (598 + (9 / 10 * 10 - 5)) 350 600 = 600"
    by (simp_all add: clamp_def)
  show ?thesis
    using h c tick_is_clamped_perturbation [OF h, of "initial\<lparr>coLevel := 5, co2Level := 598\<rparr>"]
    by simp
qed

subsection \<open>Classification\<close>

text \<open>
  C2. For every real value the CO status is danger above 25, warning above 20 up to and
  including 25, and the ok tier (status \<open>success\<close>) otherwise; the CO2 status is danger
  above 500, warning above 450 up to and including 500, and the ok tier otherwise. At the
  thresholds: 20 and 450 are ok, 25 and 500 are warning. Both are functions of the value
  alone.
\<close>

theorem status_classifier:
  "coStatus v = status_of (classify v CO) \<and> co2Status v = status_of (classify v CO2) \<and>
   coStatus v = (if v > 25 then ''danger'' else if 20 < v \<and> v \<le> 25 then ''warning'' else ''success'') \<and>
   co2Status v = (if v > 500 then ''danger'' else if 450 < v \<and> v \<le> 500 then ''warning'' else ''success'') \<and>
   classify 20 CO = ok \<and> classify 25 CO = warning \<and>
   classify 450 CO2 = ok \<and> classify 500 CO2 = warning \<and>
   coStatus 20 = ''success'' \<and> coStatus 25 = ''warning'' \<and>
   co2Status 450 = ''success'' \<and> co2Status 500 = ''warning''"
  by (simp add: coStatus_def co2Status_def classify_def)

subsection \<open>The interval and its cleanup\<close>

lemma fetch_effect_fields [simp]:
  "timers (fetch_effect u w) = timers w" "interval (fetch_effect u w) = interval w"
  "phase (fetch_effect u w) = phase w" "screen (fetch_effect u w) = screen w"
  "console (fetch_effect u w) = console w"
  by (simp_all add: fetch_effect_def fetchFactoryData_def split: option.splits)

lemma set_state_fields [simp]:
  "timers (set_state f w) = timers w" "interval (set_state f w) = interval w"
  "phase (set_state f w) = phase w" "deps (set_state f w) = deps w"
  "requests (set_state f w) = requests w" "pending (set_state f w) = pending w"
  "console (set_state f w) = console w"
  by (simp_all add: set_state_def)

lemma resume_fields [simp]:
  "timers (fetchFactoryData_resume res w) = timers w"
  "interval (fetchFactoryData_resume res w) = interval w"
  "phase (fetchFactoryData_resume res w) = phase w"
  "deps (fetchFactoryData_resume res w) = deps w"
  "requests (fetchFactoryData_resume res w) = requests w"
  "pending (fetchFactoryData_resume res w) = pending w"
  by (simp_all add: fetchFactoryData_resume_def Let_def split: fetch_result.splits)

lemma timer_scoped_init: "timer_scoped init"
  by (simp add: timer_scoped_def init_def)

lemma timer_scoped_step: "timer_scoped w \<Longrightarrow> timer_scoped (step e w)"
  by (cases e)
     (auto simp: timer_scoped_def simulation_effect_def simulation_cleanup_def
           split: phase.splits option.splits list.splits)

lemma timer_scoped_run: "timer_scoped w \<Longrightarrow> timer_scoped (run w es)"
  by (induction es arbitrary: w) (simp_all add: timer_scoped_step)

lemma unmount_releases: "timer_scoped w \<Longrightarrow> timers (step Unmount w) = []"
  by (auto simp: timer_scoped_def simulation_cleanup_def split: phase.splits)

lemma periods_idle: "timers w = [] \<Longrightarrow> run w (periods rs) = w"
  by (induction rs) (auto simp: periods_def split: option.splits)

lemma period_while_active:
  "timer_scoped w \<Longrightarrow> phase w = Active \<Longrightarrow> step (Period r1 r2) w = w\<lparr>screen := tick r1 r2 (screen w)\<rparr>"
  by (auto simp: timer_scoped_def set_state_def)

lemma tick_fires_while_mounted:
  "coLevel (screen (run init [Mount None, Period 1 1])) = 16 \<and>
   co2Level (screen (run init [Mount None, Period 1 1])) = 455 \<and>
   coLevel (screen (run init [Mount None, Unmount, Period 1 1])) = 15 \<and>
   co2Level (screen (run init [Mount None, Unmount, Period 1 1])) = 450"
  by (simp add: init_def initial_def fetch_effect_def fetchFactoryData_def set_state_def
        simulation_effect_def simulation_cleanup_def tick_def coUpdate_def co2Update_def)

lemma run_append: "run w (es @ fs) = run (run w es) fs"
  by (induction es arbitrary: w) simp_all

text \<open>
  C4. After the screen is unmounted, whatever happened before, the interval table is
  empty and any number of further clock periods, with any draws, leaves the whole hook
  state, so both levels, as it was at the unmount.
\<close>

theorem no_ticks_after_unmount:
  "timers (step Unmount (run init es)) = [] \<and>
   run (step Unmount (run init es)) (periods rs) = step Unmount (run init es) \<and>
   screen (run init (es @ [Unmount] @ periods rs)) = screen (run init es) \<and>
   coLevel (screen (run init (es @ [Unmount] @ periods rs))) = coLevel (screen (run init es)) \<and>
   co2Level (screen (run init (es @ [Unmount] @ periods rs))) = co2Level (screen (run init es))"
proof -
  let ?w = "run init es"
  have sc: "timer_scoped ?w" by (rule timer_scoped_run [OF timer_scoped_init])
  have t: "timers (step Unmount ?w) = []" by (rule unmount_releases [OF sc])
  have idle: "run (step Unmount ?w) (periods rs) = step Unmount ?w"
    by (rule periods_idle [OF t])
  have "run init (es @ [Unmount] @ periods rs) = run (step Unmount ?w) (periods rs)"
    by (simp add: run_append)
  then have "screen (run init (es @ [Unmount] @ periods rs)) = screen (step Unmount ?w)"
    using idle by simp
  also have "\<dots> = screen ?w" by (simp add: simulation_cleanup_def split: option.splits)
  finally show ?thesis using t idle by simp
qed

subsection \<open>The profile fetch\<close>

lemma placeholders [simp]:
  "nameShown None = ''Your Factory''" "locationShown None = ''Location''"
  "industryShown None = ''Industry''" "ratingShown None = 0"
  by (simp_all add: nameShown_def locationShown_def industryShown_def ratingShown_def
        or_string_def or_number_def)

lemma shown_fields [simp]:
  "nameShown (Some \<lparr>name = Some (n # ns), location = lo, industry = ind, rating = ra\<rparr>) = n # ns"
  "locationShown (Some \<lparr>name = na, location = Some (l # ls), industry = ind, rating = ra\<rparr>) = l # ls"
  "industryShown (Some \<lparr>name = na, location = lo, industry = Some (k # ks), rating = ra\<rparr>) =
     replace CHR ''_'' CHR '' '' (k # ks)"
  "ratingShown (Some \<lparr>name = na, location = lo, industry = ind, rating = Some x\<rparr>) = x"
  by (simp_all add: nameShown_def locationShown_def industryShown_def ratingShown_def
        or_string_def or_number_def)

lemma settle_active:
  assumes "phase w = Active" and "pending w = u # rest"
  shows "screen (step (Settle (Exists d)) w) = (screen w)\<lparr>factory := Some d, loading := False\<rparr>"
    and "console (step (Settle (Exists d)) w) = console w"
    and "screen (step (Settle Missing) w) = (screen w)\<lparr>loading := False\<rparr>"
    and "console (step (Settle Missing) w) =
           console w @ [[''No factory document found for this user'']]"
    and "screen (step (Settle (Rejected err)) w) = (screen w)\<lparr>loading := False\<rparr>"
    and "console (step (Settle (Rejected err)) w) =
           console w @ [[''Error fetching factory data:'', err]]"
  using assms by (simp_all add: fetchFactoryData_resume_def set_state_def)

lemma settle_torn:
  assumes "phase w = Torn" and "pending w = u # rest"
  shows "screen (step (Settle res) w) = screen w"
    and "phase (step (Settle res) w) = Torn"
    and "console (step (Settle (Exists d)) w) = console w"
    and "console (step (Settle Missing) w) =
           console w @ [[''No factory document found for this user'']]"
    and "console (step (Settle (Rejected err)) w) =
           console w @ [[''Error fetching factory data:'', err]]"
  using assms
  by (simp_all add: fetchFactoryData_resume_def set_state_def Let_def split: fetch_result.splits)

text \<open>
  C5, as claimed, fails: when the user changes on a mounted screen that already shows the
  first user's record and the second user has no document, the message is logged but the
  first user's record stays in the header, not the placeholders.
\<close>

theorem absent_record_keeps_previous:
  "console (run init [Mount (Some U1), Settle (Exists acme), Rerender (Some U2), Settle Missing]) =
     [[''No factory document found for this user'']] \<and>
   requests (run init [Mount (Some U1), Settle (Exists acme), Rerender (Some U2), Settle Missing]) =
     [''U1'', ''U2''] \<and>
   factory (screen (run init
     [Mount (Some U1), Settle (Exists acme), Rerender (Some U2), Settle Missing])) = Some acme \<and>
   render (screen (run init
     [Mount (Some U1), Settle (Exists acme), Rerender (Some U2), Settle Missing])) =
     Dashboard \<lparr>title = ''Acme Steel Dashboard'',
                subtitle = ''Ohio'' @ separator @ ''metal production'',
                ratingDisplay = 4, coCardStatus = ''success'', co2CardStatus = ''success''\<rparr> \<and>
   ''Acme Steel Dashboard'' \<noteq> ''Your Factory Dashboard''"
  by (simp add: init_def initial_def fetch_effect_def fetchFactoryData_def set_state_def
        simulation_effect_def fetchFactoryData_resume_def render_def acme_def U1_def U2_def
        nameShown_def locationShown_def industryShown_def ratingShown_def
        or_string_def or_number_def coStatus_def co2Status_def)

text \<open>
  C5, amended. When a pending fetch settles on a mounted screen: with a document, exactly
  its data becomes the \<open>factory\<close> state and nothing is logged, and a document whose
  name, location and industry are non-empty is displayed with exactly these (the industry
  with its first underscore replaced) and its rating; with no document, one message is
  logged and, on a screen that holds no record from an earlier fetch, the header shows the
  placeholders; with an error, a different message carrying the error is logged and the
  same placeholders are shown. In every outcome \<open>loading\<close> is cleared and the dashboard,
  not the spinner, is rendered.
\<close>

theorem fetch_outcomes:
  assumes "phase w = Active" and "pending w = u # rest"
  shows "factory (screen (step (Settle (Exists d)) w)) = Some d \<and>
         console (step (Settle (Exists d)) w) = console w \<and>
         render (screen (step (Settle (Exists d)) w)) =
           Dashboard \<lparr>title = nameShown (Some d) @ '' Dashboard'',
                      subtitle = locationShown (Some d) @ separator @ industryShown (Some d),
                      ratingDisplay = ratingShown (Some d),
                      coCardStatus = coStatus (coLevel (screen w)),
                      co2CardStatus = co2Status (co2Level (screen w))\<rparr> \<and>
         render (screen (step (Settle (Exists
             \<lparr>name = Some (n # ns), location = Some (l # ls), industry = Some (k # ks),
              rating = Some x\<rparr>)) w)) =
           Dashboard \<lparr>title = (n # ns) @ '' Dashboard'',
                      subtitle = (l # ls) @ separator @ replace CHR ''_'' CHR '' '' (k # ks),
                      ratingDisplay = x,
                      coCardStatus = coStatus (coLevel (screen w)),
                      co2CardStatus = co2Status (co2Level (screen w))\<rparr> \<and>
         factory (screen (step (Settle Missing) w)) = factory (screen w) \<and>
         console (step (Settle Missing) w) =
           console w @ [[''No factory document found for this user'']] \<and>
         factory (screen (step (Settle (Rejected err)) w)) = factory (screen w) \<and>
         console (step (Settle (Rejected err)) w) =
           console w @ [[''Error fetching factory data:'', err]] \<and>
         console (step (Settle (Rejected err)) w) \<noteq> console (step (Settle Missing) w) \<and>
         (factory (screen w) = None \<longrightarrow>
            render (screen (step (Settle Missing) w)) =
              Dashboard \<lparr>title = ''Your Factory Dashboard'',
                         subtitle = ''Location'' @ separator @ ''Industry'',
                         ratingDisplay = 0,
                         coCardStatus = coStatus (coLevel (screen w)),
                         co2CardStatus = co2Status (co2Level (screen w))\<rparr> \<and>
            render (screen (step (Settle (Rejected err)) w)) =
              render (screen (step (Settle Missing) w))) \<and>
         loading (screen (step (Settle res) w)) = False \<and>
         render (screen (step (Settle res) w)) \<noteq> Spinner"
proof -
  note s = settle_active [OF assms]
  have any: "loading (screen (step (Settle res) w)) = False"
    using assms
    by (simp add: fetchFactoryData_resume_def set_state_def Let_def split: fetch_result.splits)
  then have shown: "render (screen (step (Settle res) w)) \<noteq> Spinner"
    by (simp add: render_def)
  have r1: "render ((screen w)\<lparr>factory := Some e, loading := False\<rparr>) =
           Dashboard \<lparr>title = nameShown (Some e) @ '' Dashboard'',
                      subtitle = locationShown (Some e) @ separator @ industryShown (Some e),
                      ratingDisplay = ratingShown (Some e),
                      coCardStatus = coStatus (coLevel (screen w)),
                      co2CardStatus = co2Status (co2Level (screen w))\<rparr>" for e
    by (simp add: render_def)
  have r2: "factory (screen w) = None \<Longrightarrow>
            render ((screen w)\<lparr>loading := False\<rparr>) =
              Dashboard \<lparr>title = ''Your Factory Dashboard'',
                         subtitle = ''Location'' @ separator @ ''Industry'',
                         ratingDisplay = 0,
                         coCardStatus = coStatus (coLevel (screen w)),
                         co2CardStatus = co2Status (co2Level (screen w))\<rparr>"
    by (simp add: render_def)
  show ?thesis
    unfolding s using any shown r1 r2 by simp
qed

theorem fetch_outcomes_witness:
  "phase (run init [Mount (Some U1)]) = Active \<and>
   pending (run init [Mount (Some U1)]) = [''U1''] \<and>
   factory (screen (run init [Mount (Some U1)])) = None \<and>
   factory (screen (run init [Mount (Some U1), Settle (Exists acme)])) = Some acme \<and>
   console (run init [Mount (Some U1), Settle Missing]) =
     [[''No factory document found for this user'']] \<and>
   console (run init [Mount (Some U1), Settle (Rejected ''unavailable'')]) =
     [[''Error fetching factory data:'', ''unavailable'']] \<and>
   render (screen (run init [Mount (Some U1), Settle (Exists
       \<lparr>name = Some ''Acme Steel'', location = Some ''Ohio'',
        industry = Some ''metal_production'', rating = Some 4\<rparr>)])) =
     Dashboard \<lparr>title = ''Acme Steel Dashboard'',
                subtitle = ''Ohio'' @ separator @ ''metal production'',
                ratingDisplay = 4, coCardStatus = ''success'', co2CardStatus = ''success''\<rparr> \<and>
   render (screen (run init [Mount (Some U1), Settle Missing])) =
     Dashboard \<lparr>title = ''Your Factory Dashboard'',
                subtitle = ''Location'' @ separator @ ''Industry'',
                ratingDisplay = 0, coCardStatus = ''success'', co2CardStatus = ''success''\<rparr> \<and>
   render (screen (run init [Mount (Some U1), Settle (Rejected ''unavailable'')])) =
     render (screen (run init [Mount (Some U1), Settle Missing])) \<and>
   render (screen (run init [Mount (Some U1), Settle (Rejected ''unavailable'')])) \<noteq> Spinner"
proof -
  let ?w = "run init [Mount (Some U1)]"
  have a: "phase ?w = Active" and p: "pending ?w = ''U1'' # []"
    and f: "factory (screen ?w) = None" and c: "console ?w = []"
    and lv: "coLevel (screen ?w) = 15" "co2Level (screen ?w) = 450"
    by (simp_all add: init_def initial_def fetch_effect_def fetchFactoryData_def
          simulation_effect_def U1_def)
  have r: "run init [Mount (Some U1), Settle res] = step (Settle res) ?w" for res
    by simp
  have st: "coStatus 15 = ''success''" "co2Status 450 = ''success''"
    by (simp_all add: coStatus_def co2Status_def)
  show ?thesis
    unfolding r
    using a p f c lv st
      fetch_outcomes [OF a p, of acme "CHR ''A''" "''cme Steel''" "CHR ''O''" "''hio''"
        "CHR ''m''" "''etal_production''" 4 "''unavailable''" "Rejected ''unavailable''"]
    by simp
qed

text \<open>
  C6, as claimed, fails: a result that arrives after the unmount is not discarded, the
  continuation still runs and logs that the document is missing.
\<close>

theorem late_result_logged:
  "phase (run init [Mount (Some U1), Unmount]) = Torn \<and>
   console (run init [Mount (Some U1), Unmount]) = [] \<and>
   console (run init [Mount (Some U1), Unmount, Settle Missing]) =
     [[''No factory document found for this user'']] \<and>
   console (run init [Mount (Some U1), Unmount, Settle (Rejected ''unavailable'')]) =
     [[''Error fetching factory data:'', ''unavailable'']]"
  by (simp add: init_def initial_def fetch_effect_def fetchFactoryData_def set_state_def
        simulation_effect_def simulation_cleanup_def fetchFactoryData_resume_def U1_def)

text \<open>
  C6, amended. A result that arrives after the unmount is not applied to the hook state:
  the component still calls its setters, and the host drops them, so \<open>factory\<close>,
  \<open>loading\<close> and both levels stay as they were. The component itself does not discard
  the result: nothing is logged for a document, but a missing document and an error are
  still logged.
\<close>

theorem late_result_state_untouched:
  assumes "phase w = Torn" and "pending w = u # rest"
  shows "screen (step (Settle res) w) = screen w \<and>
         factory (screen (step (Settle (Exists d)) w)) = factory (screen w) \<and>
         loading (screen (step (Settle res) w)) = loading (screen w) \<and>
         render (screen (step (Settle res) w)) = render (screen w) \<and>
         phase (step (Settle res) w) = Torn \<and>
         console (step (Settle (Exists d)) w) = console w \<and>
         console (step (Settle Missing) w) =
           console w @ [[''No factory document found for this user'']] \<and>
         console (step (Settle (Rejected err)) w) =
           console w @ [[''Error fetching factory data:'', err]]"
proof -
  note s = settle_torn [OF assms]
  show ?thesis unfolding s by simp
qed

theorem late_result_state_untouched_witness:
  "phase (run init [Mount (Some U1), Period 1 1, Unmount]) = Torn \<and>
   pending (run init [Mount (Some U1), Period 1 1, Unmount]) = [''U1''] \<and>
   screen (run init [Mount (Some U1), Period 1 1, Unmount]) =
     \<lparr>factory = None, loading = True, coLevel = 16, co2Level = 455\<rparr> \<and>
   screen (run init [Mount (Some U1), Period 1 1, Unmount, Settle (Exists acme)]) =
     \<lparr>factory = None, loading = True, coLevel = 16, co2Level = 455\<rparr> \<and>
   render (screen (run init [Mount (Some U1), Period 1 1, Unmount, Settle (Exists acme)])) =
     Spinner \<and>
   console (run init [Mount (Some U1), Period 1 1, Unmount, Settle (Exists acme)]) = []"
proof -
  let ?w = "run init [Mount (Some U1), Period 1 1, Unmount]"
  have t: "phase ?w = Torn" and p: "pending ?w = ''U1'' # []"
    and s: "screen ?w = \<lparr>factory = None, loading = True, coLevel = 16, co2Level = 455\<rparr>"
    and c: "console ?w = []"
    by (simp_all add: init_def initial_def fetch_effect_def fetchFactoryData_def set_state_def
          simulation_effect_def simulation_cleanup_def tick_def coUpdate_def co2Update_def U1_def)
  have r: "run init [Mount (Some U1), Period 1 1, Unmount, Settle res] = step (Settle res) ?w"
    for res
    by simp
  have sp: "render \<lparr>factory = None, loading = True, coLevel = 16, co2Level = 455\<rparr> = Spinner"
    by (simp add: render_def)
  show ?thesis
    unfolding r
    using t p s c sp late_result_state_untouched [OF t p, of "Exists acme" acme]
    by simp
qed


lemma same_user_Cons: "same_user u (e # es) = (same_user u [e] \<and> same_user u es)"
  by (cases e) simp_all







lemma waiting_step: "waiting w \<Longrightarrow> same_user None [e] \<Longrightarrow> waiting (step e w)"
  by (cases e)
     (auto simp: waiting_def simulation_cleanup_def set_state_def tick_def split: option.splits)

lemma waiting_run: "waiting w \<Longrightarrow> same_user None es \<Longrightarrow> waiting (run w es)"
proof (induction es arbitrary: w)
  case Nil
  then show ?case by simp
next
  case (Cons e es)
  from Cons.prems(2) have e: "same_user None [e]" and es: "same_user None es"
    using same_user_Cons [of None e es] by simp_all
  from Cons.IH [OF waiting_step [OF Cons.prems(1) e] es] show ?case by simp
qed

lemma waiting_mount: "waiting (step (Mount None) init)"
  by (simp add: waiting_def init_def initial_def fetch_effect_def fetchFactoryData_def
        simulation_effect_def)

text \<open>
  C9. Without a user \<open>fetchFactoryData\<close> returns with nothing changed; when the screen
  is mounted without a user and every later render is given none, then after any sequence
  of events no read has been issued, \<open>loading\<close> is still set and the component renders
  the spinner.
\<close>

theorem no_user_spinner:
  assumes "same_user None es"
  shows "fetchFactoryData None w = w \<and>
         requests (run init (Mount None # es)) = [] \<and>
         loading (screen (run init (Mount None # es))) \<and>
         render (screen (run init (Mount None # es))) = Spinner"
  using waiting_run [OF waiting_mount assms]
  by (simp add: waiting_def fetchFactoryData_def render_def)

theorem no_user_spinner_witness:
  "same_user None [Period 1 1, Settle (Exists acme), Rerender None, Period 0 0, Settle Missing] \<and>
   requests (run init [Mount None, Period 1 1, Settle (Exists acme), Rerender None,
                       Period 0 0, Settle Missing]) = [] \<and>
   render (screen (run init [Mount None, Period 1 1, Settle (Exists acme), Rerender None,
                             Period 0 0, Settle Missing])) = Spinner"
proof -
  have h: "same_user None [Period 1 1, Settle (Exists acme), Rerender None, Period 0 0, Settle Missing]"
    by simp
  show ?thesis using h no_user_spinner [OF h] by simp
qed

subsection \<open>The header\<close>

text \<open>
  C8. In the end-to-end scenario the title is "Acme Steel Dashboard", the industry is shown
  with its underscore replaced by a space and the rating is 4; without a record the
  placeholders and rating 0 are shown. Between location and industry the component puts
  the separator of the source file, which is not the bullet U+2022.
\<close>

theorem scenario_header:
  "render (screen (run init [Mount (Some U1), Settle (Exists acme)])) =
     Dashboard \<lparr>title = ''Acme Steel Dashboard'',
                subtitle = ''Ohio'' @ separator @ ''metal production'',
                ratingDisplay = 4, coCardStatus = ''success'', co2CardStatus = ''success''\<rparr> \<and>
   ''Ohio'' @ separator @ ''metal production'' \<noteq> ''Ohio'' @ bullet @ ''metal production'' \<and>
   render (screen (run init [Mount (Some U2), Settle Missing])) =
     Dashboard \<lparr>title = ''Your Factory Dashboard'',
                subtitle = ''Location'' @ separator @ ''Industry'',
                ratingDisplay = 0, coCardStatus = ''success'', co2CardStatus = ''success''\<rparr> \<and>
   ''Location'' @ separator @ ''Industry'' \<noteq> ''Location'' @ bullet @ ''Industry''"
  by (simp add: init_def initial_def fetch_effect_def fetchFactoryData_def set_state_def
        simulation_effect_def fetchFactoryData_resume_def render_def acme_def U1_def U2_def
        nameShown_def locationShown_def industryShown_def ratingShown_def
        or_string_def or_number_def coStatus_def co2Status_def separator_def bullet_def)


end
